theory Spec2Isabelle
  imports Main "HOL-Library.AList" "HOL-Library.Sublist"
begin

section \<open>Values exchanged with the manager\<close>

text \<open>
  The module \<^verbatim>\<open>service_host/managed_service_host.py\<close> defines one class,
  \<^verbatim>\<open>ManagedServiceHost\<close>, with the methods \<^verbatim>\<open>start\<close>, \<^verbatim>\<open>stop\<close> and
  \<^verbatim>\<open>restart\<close>. The values it handles are JSON documents (the body of the manager's
  reply and the host configuration decoded from it), request parameters and exceptions.
  Numbers are the integral ones; no method of the class computes with a fractional number
  of a JSON document.
\<close>

datatype json_value =
    JNull
  | JBool bool
  | JNum int
  | JStr string
  | JArr "json_value list"
  | JObj "(string \<times> json_value) list"

text \<open>
  \<^verbatim>\<open>UnexpectedResponse\<close> is the exception of \<^verbatim>\<open>.exceptions\<close> that the class raises
  itself. The others are raised by the Python operations it performs on the reply
  (\<^verbatim>\<open>host_json['output']\<close>, \<^verbatim>\<open>json.loads\<close>, \<^verbatim>\<open>res.json()\<close>) or by a collaborator
  (\<^verbatim>\<open>ExternalError\<close>: whatever \<^verbatim>\<open>manager.send_request\<close> or \<^verbatim>\<open>connect\<close> raises).
\<close>

datatype error =
    UnexpectedResponse string
  | KeyError string
  | TypeError
  | ValueError
  | ExternalError string

datatype param = PStr string | PInt int

type_synonym params = "(string \<times> param) list"

text \<open>
  The reply of \<^verbatim>\<open>manager.send_request\<close>: the attributes \<^verbatim>\<open>status_code\<close> and
  \<^verbatim>\<open>text\<close> and the result of the method \<^verbatim>\<open>json()\<close>, which is \<open>None\<close> when the
  body does not parse (the method then raises a \<^verbatim>\<open>ValueError\<close>).
\<close>

record response =
  status_code :: int
  res_text :: string
  json :: "json_value option"

text \<open>
  What a call does to the world outside the object, in the order it happens:
  a request sent through the manager (action, \<^verbatim>\<open>params\<close>, \<^verbatim>\<open>post\<close>),
  \<^verbatim>\<open>time.sleep\<close> (the argument in milliseconds, so \<^verbatim>\<open>time.sleep(0.05)\<close> is
  \<open>Sleep 50\<close>), \<^verbatim>\<open>print\<close>, and the call of \<^verbatim>\<open>self.connect()\<close>.
\<close>

datatype event =
    Request string params bool
  | Sleep nat
  | Print string
  | Connect

text \<open>
  An entry of the \<^verbatim>\<open>atexit\<close> registry made by
  \<^verbatim>\<open>atexit.register(self.stop, timeout=t)\<close>: the bound method \<^verbatim>\<open>self.stop\<close> with the
  keyword argument \<^verbatim>\<open>timeout\<close>.
\<close>

datatype exit_hook = Stop_hook int

text \<open>
  The state a \<^verbatim>\<open>ManagedServiceHost\<close> reads and writes: its attributes \<^verbatim>\<open>config\<close>
  and \<^verbatim>\<open>config_file\<close>, the name of its class (\<^verbatim>\<open>type(self).__name__\<close>), the
  events performed so far, oldest first, and the process's \<^verbatim>\<open>atexit\<close> registry in
  order of registration.
\<close>

record host =
  config :: json_value
  config_file :: string
  cls_name :: string
  trace :: "event list"
  exitfuncs :: "exit_hook list"

text \<open>
  \<^verbatim>\<open>settings\<close> and \<^verbatim>\<open>Verbosity\<close> come from \<^verbatim>\<open>.conf\<close>, which is not part of the
  module; their values are parameters.
\<close>

record settings =
  VERBOSITY :: int
  ON_EXIT_MANAGED_HOSTS_STOP_TIMEOUT :: int

record verbosity =
  PROCESS_START :: int
  PROCESS_STOP :: int

text \<open>
  The collaborators of the class, as parameters:
  \<^item> \<open>send_request\<close> is \<^verbatim>\<open>self.manager.send_request(action, params=..., post=...)\<close>;
    the manager answers from what has happened so far, or the call raises;
  \<^item> \<open>is_running\<close>, \<open>get_name\<close> and \<open>connect\<close> are the methods inherited from
    \<^verbatim>\<open>ServiceHost\<close>; \<open>connect\<close> gives the exception it raises, if any;
  \<^item> \<open>json_loads\<close> is \<^verbatim>\<open>json.loads\<close> on a string, \<open>None\<close> when it raises
    \<^verbatim>\<open>ValueError\<close>;
  \<^item> \<open>response_str\<close> is \<^verbatim>\<open>str(res)\<close>, what \<^verbatim>\<open>'{res}'.format(res=res)\<close> renders;
  \<^item> \<open>seconds_str\<close> renders the float \<^verbatim>\<open>timeout / 1000.0\<close>.
\<close>

record env =
  send_request :: "event list \<Rightarrow> string \<Rightarrow> params \<Rightarrow> bool \<Rightarrow> error + response"
  is_running :: "host \<Rightarrow> bool"
  get_name :: "host \<Rightarrow> string"
  connect :: "host \<Rightarrow> error option"
  json_loads :: "string \<Rightarrow> json_value option"
  response_str :: "response \<Rightarrow> string"
  seconds_str :: "int \<Rightarrow> string"
  settings :: settings
  Verbosity :: verbosity

section \<open>Python operations used by the class\<close>

text \<open>Truth value of a JSON value, as \<^verbatim>\<open>if x\<close> tests it.\<close>

fun truthy :: "json_value \<Rightarrow> bool" where
  "truthy JNull = False"
| "truthy (JBool b) = b"
| "truthy (JNum n) = (n \<noteq> 0)"
| "truthy (JStr s) = (s \<noteq> [])"
| "truthy (JArr xs) = (xs \<noteq> [])"
| "truthy (JObj kvs) = (kvs \<noteq> [])"

text \<open>
  Truth value of the argument \<^verbatim>\<open>timeout\<close> of \<^verbatim>\<open>stop\<close>: \<^verbatim>\<open>None\<close> and \<^verbatim>\<open>0\<close> are
  false, every other integer is true.
\<close>

fun timeout_truthy :: "int option \<Rightarrow> bool" where
  "timeout_truthy None = False"
| "timeout_truthy (Some n) = (n \<noteq> 0)"

text \<open>
  \<^verbatim>\<open>v[key]\<close> with a string key: a dictionary is looked up (\<^verbatim>\<open>KeyError\<close> when the key
  is missing), every other JSON value raises \<^verbatim>\<open>TypeError\<close>.
\<close>

fun subscript :: "json_value \<Rightarrow> string \<Rightarrow> error + json_value" where
  "subscript (JObj kvs) k =
     (case map_of kvs k of None \<Rightarrow> Inl (KeyError k) | Some v \<Rightarrow> Inr v)"
| "subscript v k = Inl TypeError"

text \<open>\<^verbatim>\<open>json.loads(v)\<close>: \<^verbatim>\<open>TypeError\<close> unless \<open>v\<close> is a string.\<close>

fun loads :: "env \<Rightarrow> json_value \<Rightarrow> error + json_value" where
  "loads e (JStr s) =
     (case json_loads e s of None \<Rightarrow> Inl ValueError | Some v \<Rightarrow> Inr v)"
| "loads e v = Inl TypeError"

text \<open>\<^verbatim>\<open>str(n)\<close> of an integer, which is also what \<^verbatim>\<open>'{}'.format(n)\<close> renders.\<close>

fun str_nat :: "nat \<Rightarrow> string" where
  "str_nat n =
     (if n < 10 then [''0123456789'' ! n]
      else str_nat (n div 10) @ [''0123456789'' ! (n mod 10)])"

declare str_nat.simps [simp del]

definition str_int :: "int \<Rightarrow> string" where
  "str_int i = (if i < 0 then CHR ''-'' # str_nat (nat (- i)) else str_nat (nat i))"

text \<open>
  \<^verbatim>\<open>str(res)\<close> of a \<^verbatim>\<open>requests.Response\<close>, the reply type of the HTTP client library.
\<close>

definition requests_repr :: "response \<Rightarrow> string" where
  "requests_repr res = ''<Response ['' @ str_int (status_code res) @ '']>''"

section \<open>ManagedServiceHost\<close>

definition log :: "event \<Rightarrow> host \<Rightarrow> host" where
  "log ev h = h\<lparr>trace := trace h @ [ev]\<rparr>"

text \<open>The events a call has added to the trace, given the states before and after it.\<close>

definition emitted :: "host \<Rightarrow> host \<Rightarrow> event list" where
  "emitted h h' = drop (length (trace h)) (trace h')"

definition start_params :: "host \<Rightarrow> params" where
  "start_params h = [(''config'', PStr (config_file h))]"

definition start_message :: "env \<Rightarrow> host \<Rightarrow> response \<Rightarrow> string" where
  "start_message e h res =
     ''Attempted to start a '' @ cls_name h @ '': '' @ response_str e res @ '' - '' @ res_text res"

definition start :: "env \<Rightarrow> host \<Rightarrow> (error + unit) \<times> host" where
  "start e h =
     (let h1 = log (Request ''start'' (start_params h) True) h in
      case send_request e (trace h) ''start'' (start_params h) True of
        Inl err \<Rightarrow> (Inl err, h1)
      | Inr res \<Rightarrow>
          if status_code res \<noteq> 200
          then (Inl (UnexpectedResponse (start_message e h1 res)), h1)
          else
            (case json res of
               None \<Rightarrow> (Inl ValueError, h1)
             | Some host_json \<Rightarrow>
                 (case subscript host_json ''output'' of
                    Inl err \<Rightarrow> (Inl err, h1)
                  | Inr output \<Rightarrow>
                      (case loads e output of
                         Inl err \<Rightarrow> (Inl err, h1)
                       | Inr cfg \<Rightarrow>
                           (let h2 = h1\<lparr>config := cfg\<rparr> in
                            case subscript host_json ''started'' of
                              Inl err \<Rightarrow> (Inl err, h2)
                            | Inr started \<Rightarrow>
                                (let h3 =
                                   (if truthy started \<and>
                                       VERBOSITY (settings e) \<ge> PROCESS_START (Verbosity e)
                                    then log (Print (''Started '' @ get_name e h2)) h2
                                    else h2)
                                 in (Inr (),
                                     h3\<lparr>exitfuncs := exitfuncs h3 @
                                        [Stop_hook
                                           (ON_EXIT_MANAGED_HOSTS_STOP_TIMEOUT (settings e))]\<rparr>)))))))"

definition stop_params :: "host \<Rightarrow> int option \<Rightarrow> params" where
  "stop_params h timeout =
     (let params = [(''config'', PStr (config_file h))] in
      case timeout of
        None \<Rightarrow> params
      | Some n \<Rightarrow> if n \<noteq> 0 then AList.update ''timeout'' (PInt n) params else params)"

definition stop_message :: "env \<Rightarrow> host \<Rightarrow> response \<Rightarrow> string" where
  "stop_message e h res =
     ''Attempted to stop '' @ get_name e h @ ''. Response: '' @ str_int (status_code res)
       @ '': '' @ res_text res"

definition stop :: "env \<Rightarrow> int option \<Rightarrow> host \<Rightarrow> (error + unit) \<times> host" where
  "stop e timeout h =
     (if \<not> is_running e h then (Inr (), h)
      else
        (let params = stop_params h timeout;
             h1 = log (Request ''stop'' params True) h in
         case send_request e (trace h) ''stop'' params True of
           Inl err \<Rightarrow> (Inl err, h1)
         | Inr res \<Rightarrow>
             if status_code res \<noteq> 200
             then (Inl (UnexpectedResponse (stop_message e h1 res)), h1)
             else
               (let h2 = (if \<not> timeout_truthy timeout then log (Sleep 50) h1 else h1);
                    h3 =
                      (if VERBOSITY (settings e) \<ge> PROCESS_STOP (Verbosity e)
                       then
                         (case timeout of
                            Some n \<Rightarrow>
                              if n \<noteq> 0
                              then log (Print (get_name e h2 @ '' will stop in ''
                                     @ seconds_str e n @ '' seconds'')) h2
                              else log (Print (''Stopped '' @ get_name e h2)) h2
                          | None \<Rightarrow> log (Print (''Stopped '' @ get_name e h2)) h2)
                       else h2)
                in (Inr (), h3))))"

definition restart :: "env \<Rightarrow> host \<Rightarrow> (error + unit) \<times> host" where
  "restart e h =
     (case stop e None h of
        (Inl err, h1) \<Rightarrow> (Inl err, h1)
      | (Inr _, h1) \<Rightarrow>
          (case start e h1 of
             (Inl err, h2) \<Rightarrow> (Inl err, h2)
           | (Inr _, h2) \<Rightarrow>
               (let h3 = log Connect h2 in
                case connect e h2 of
                  Some err \<Rightarrow> (Inl err, h3)
                | None \<Rightarrow> (Inr (), h3))))"

text \<open>
  Running one entry of the \<^verbatim>\<open>atexit\<close> registry calls the registered bound method with
  the registered keyword argument: \<^verbatim>\<open>self.stop(timeout=t)\<close>.
\<close>

fun run_hook :: "env \<Rightarrow> exit_hook \<Rightarrow> host \<Rightarrow> (error + unit) \<times> host" where
  "run_hook e (Stop_hook t) h = stop e (Some t) h"

text \<open>
  The calls the class itself makes to its collaborators: the requests to the manager and
  \<^verbatim>\<open>self.connect()\<close>.
\<close>

fun is_call :: "event \<Rightarrow> bool" where
  "is_call (Request a p b) = True"
| "is_call Connect = True"
| "is_call ev = False"

section \<open>An example manager\<close>

text \<open>
  A manager that answers every request with the given status and body text, whose reply
  to \<^verbatim>\<open>start\<close> decodes to \<^verbatim>\<open>{started: true, output: "{\"port\": 5000}"}\<close>; a host
  whose inherited \<^verbatim>\<open>is_running\<close> gives the given answer. It is the concrete input on
  which the theorems below are instantiated.
\<close>

definition demo_body :: json_value where
  \<open>demo_body = JObj [(''started'', JBool True), (''output'', JStr ''{"port": 5000}'')]\<close>

definition demo_env :: "bool \<Rightarrow> int \<Rightarrow> string \<Rightarrow> env" where
  \<open>demo_env running code body =
     \<lparr>send_request = (\<lambda>tr action ps post.
          Inr \<lparr>status_code = code, res_text = body,
               json = (if action = ''start'' then Some demo_body else None)\<rparr>),
      is_running = (\<lambda>h. running),
      get_name = (\<lambda>h. ''JSHost [127.0.0.1:9009]''),
      connect = (\<lambda>h. None),
      json_loads =
        (\<lambda>s. if s = ''{"port": 5000}'' then Some (JObj [(''port'', JNum 5000)]) else None),
      response_str = requests_repr,
      seconds_str = (\<lambda>n. str_int (n div 1000) @ ''.'' @ str_int (n mod 1000)),
      settings = \<lparr>VERBOSITY = 1, ON_EXIT_MANAGED_HOSTS_STOP_TIMEOUT = 10000\<rparr>,
      Verbosity = \<lparr>PROCESS_START = 1, PROCESS_STOP = 2\<rparr>\<rparr>\<close>

definition demo_host :: host where
  "demo_host =
     \<lparr>config = JNull, config_file = ''host.config.js'', cls_name = ''ManagedServiceHost'',
      trace = [], exitfuncs = []\<rparr>"

section \<open>Auxiliary facts\<close>

lemma sublist_third: "sublist xs (a @ b @ c @ xs @ ss)"
  using sublist_appendI [of xs "a @ b @ c" ss] by simp

lemma sublist_sixth: "sublist xs (a @ b @ c @ d @ f @ xs)"
  using sublist_append_leftI [of xs "a @ b @ c @ d @ f"] by simp

lemma start_message_log [simp]: "start_message e (log ev h) res = start_message e h res"
  by (simp add: start_message_def log_def)

lemma str_int_500: "str_int 500 = ''500''"
  by code_simp

lemma stop_None_ok:
  assumes "is_running e h" and "fst (stop e None h) = Inr ()"
  shows "\<exists>ps. trace (snd (stop e None h)) =
            trace h @ Request ''stop'' [(''config'', PStr (config_file h))] True # Sleep 50 # ps \<and>
          filter is_call ps = []"
    and "config_file (snd (stop e None h)) = config_file h"
  using assms
  by (auto simp add: stop_def stop_params_def Let_def log_def split: sum.splits if_splits)

lemma start_ok:
  assumes "fst (start e h) = Inr ()"
  shows "\<exists>ps. trace (snd (start e h)) =
            trace h @ Request ''start'' [(''config'', PStr (config_file h))] True # ps \<and>
          filter is_call ps = []"
  using assms
  by (auto simp add: start_def start_params_def Let_def log_def
      split: sum.splits if_splits option.splits)

lemma stop_trace_no_start:
  "\<exists>evs. trace (snd (stop e t h)) = trace h @ evs \<and> (\<forall>p b. Request ''start'' p b \<notin> set evs)"
  by (cases t) (auto simp add: stop_def Let_def log_def split: sum.splits if_splits option.splits)

text \<open>
  The start notification for any value of the field \<^verbatim>\<open>started\<close>: it is printed when
  the value is true as Python tests it and the verbosity reaches the threshold.
\<close>

lemma start_notification_truthy:
  assumes "fst (start e h) = Inr ()"
    and "send_request e (trace h) ''start'' (start_params h) True = Inr res"
    and "json res = Some host_json"
    and "subscript host_json ''started'' = Inr started"
  shows "(\<exists>m. Print m \<in> set (emitted h (snd (start e h)))) \<longleftrightarrow>
           (truthy started \<and> VERBOSITY (settings e) \<ge> PROCESS_START (Verbosity e))"
  using assms
  by (auto simp add: start_def Let_def log_def emitted_def
      split: sum.splits if_splits option.splits)

section \<open>start\<close>

text \<open>
  C1. When the manager answers the start request with status 200, \<^verbatim>\<open>start\<close> sets
  \<^verbatim>\<open>config\<close> to the value that \<^verbatim>\<open>json.loads\<close> decodes from the field \<^verbatim>\<open>output\<close>
  of the reply's JSON body, whatever the configuration was before (also when the call then
  fails on a missing field \<^verbatim>\<open>started\<close>).
\<close>

theorem start_success_sets_config:
  assumes "send_request e (trace h) ''start'' (start_params h) True = Inr res"
    and "status_code res = 200"
    and "json res = Some host_json"
    and "subscript host_json ''output'' = Inr (JStr s)"
    and "json_loads e s = Some cfg"
  shows "config (snd (start e h)) = cfg"
  using assms by (simp add: start_def Let_def log_def split: sum.splits)

theorem start_success_sets_config_witness:
  \<open>send_request (demo_env True 200 ''ok'') (trace demo_host) ''start'' (start_params demo_host)
       True =
     Inr \<lparr>status_code = 200, res_text = ''ok'', json = Some demo_body\<rparr> \<and>
   subscript demo_body ''output'' = Inr (JStr ''{"port": 5000}'') \<and>
   json_loads (demo_env True 200 ''ok'') ''{"port": 5000}'' = Some (JObj [(''port'', JNum 5000)]) \<and>
   config (snd (start (demo_env True 200 ''ok'') demo_host)) = JObj [(''port'', JNum 5000)]\<close>
  using start_success_sets_config [of "demo_env True 200 ''ok''" demo_host
      "\<lparr>status_code = 200, res_text = ''ok'', json = Some demo_body\<rparr>" demo_body
      \<open>''{"port": 5000}''\<close> "JObj [(''port'', JNum 5000)]"]
  by (simp add: demo_env_def demo_body_def)

text \<open>
  C2. When the manager answers the start request with a status other than 200,
  \<^verbatim>\<open>start\<close> raises \<^verbatim>\<open>UnexpectedResponse\<close> and \<^verbatim>\<open>config\<close> is what it was before
  the call.
\<close>

theorem start_non200_raises_config_unchanged:
  assumes "send_request e (trace h) ''start'' (start_params h) True = Inr res"
    and "status_code res \<noteq> 200"
  shows "(\<exists>msg. fst (start e h) = Inl (UnexpectedResponse msg)) \<and>
         config (snd (start e h)) = config h"
  using assms by (simp add: start_def Let_def log_def)

theorem start_non200_raises_config_unchanged_witness:
  "send_request (demo_env True 500 ''boom'') (trace demo_host) ''start'' (start_params demo_host)
       True =
     Inr \<lparr>status_code = 500, res_text = ''boom'', json = Some demo_body\<rparr> \<and>
   (500::int) \<noteq> 200 \<and>
   (\<exists>msg. fst (start (demo_env True 500 ''boom'') demo_host) = Inl (UnexpectedResponse msg)) \<and>
   config (snd (start (demo_env True 500 ''boom'') demo_host)) = config demo_host"
  using start_non200_raises_config_unchanged [of "demo_env True 500 ''boom''" demo_host
      "\<lparr>status_code = 500, res_text = ''boom'', json = Some demo_body\<rparr>"]
  by (simp add: demo_env_def)

text \<open>
  C6. When the manager answers the start request with a status other than 200, the
  message of the \<^verbatim>\<open>UnexpectedResponse\<close> raised by \<^verbatim>\<open>start\<close> is
  \<^verbatim>\<open>'Attempted to start a {cls_name}: {res} - {res_text}'\<close>: it carries the name of the
  controller's class (\<^verbatim>\<open>type(self).__name__\<close>, not the display name that
  \<^verbatim>\<open>get_name()\<close> gives), the string form of the response object and the text of the
  response body; the status code is in it when the response prints as a
  \<^verbatim>\<open>requests.Response\<close> does.
\<close>

theorem start_non200_message:
  assumes "send_request e (trace h) ''start'' (start_params h) True = Inr res"
    and "status_code res \<noteq> 200"
  shows "\<exists>msg. fst (start e h) = Inl (UnexpectedResponse msg) \<and>
           msg = ''Attempted to start a '' @ cls_name h @ '': '' @ response_str e res @ '' - ''
                   @ res_text res \<and>
           sublist (cls_name h) msg \<and>
           sublist (response_str e res) msg \<and>
           sublist (res_text res) msg \<and>
           (response_str e res = requests_repr res \<longrightarrow> sublist (str_int (status_code res)) msg)"
proof -
  let ?msg = "''Attempted to start a '' @ cls_name h @ '': '' @ response_str e res @ '' - ''
                   @ res_text res"
  have m: "start_message e h res = ?msg"
    by (simp only: start_message_def)
  have "fst (start e h) = Inl (UnexpectedResponse (start_message e h res))"
    using assms by (simp add: start_def Let_def)
  then have r: "fst (start e h) = Inl (UnexpectedResponse ?msg)"
    by (simp only: m)
  have 1: "sublist (cls_name h) ?msg" by (rule sublist_appendI)
  have 2: "sublist (response_str e res) ?msg" by (rule sublist_third)
  have 3: "sublist (res_text res) ?msg" by (rule sublist_sixth)
  have 4: "response_str e res = requests_repr res \<longrightarrow> sublist (str_int (status_code res)) ?msg"
  proof
    assume eq: "response_str e res = requests_repr res"
    have "sublist (str_int (status_code res)) (response_str e res)"
      unfolding eq requests_repr_def by (rule sublist_appendI)
    then show "sublist (str_int (status_code res)) ?msg"
      using 2 by (rule sublist_order.order.trans)
  qed
  show ?thesis
    by (rule exI [of _ ?msg]) (intro conjI r refl 1 2 3 4)
qed

theorem start_non200_message_witness:
  "send_request (demo_env True 500 ''boom'') (trace demo_host) ''start'' (start_params demo_host)
       True =
     Inr \<lparr>status_code = 500, res_text = ''boom'', json = Some demo_body\<rparr> \<and>
   response_str (demo_env True 500 ''boom'')
       \<lparr>status_code = 500, res_text = ''boom'', json = Some demo_body\<rparr> =
     requests_repr \<lparr>status_code = 500, res_text = ''boom'', json = Some demo_body\<rparr> \<and>
   fst (start (demo_env True 500 ''boom'') demo_host) =
     Inl (UnexpectedResponse ''Attempted to start a ManagedServiceHost: <Response [500]> - boom'') \<and>
   sublist ''ManagedServiceHost''
     ''Attempted to start a ManagedServiceHost: <Response [500]> - boom'' \<and>
   sublist ''500'' ''Attempted to start a ManagedServiceHost: <Response [500]> - boom'' \<and>
   sublist ''boom'' ''Attempted to start a ManagedServiceHost: <Response [500]> - boom''"
  using start_non200_message [of "demo_env True 500 ''boom''" demo_host
      "\<lparr>status_code = 500, res_text = ''boom'', json = Some demo_body\<rparr>"]
  by (simp add: demo_env_def demo_host_def requests_repr_def str_int_500)

text \<open>
  The claim as it was stated, with the display name in the message, fails: for a host
  whose \<^verbatim>\<open>get_name()\<close> is \<^verbatim>\<open>JSHost [127.0.0.1:9009]\<close> and a reply 500 with body
  \<^verbatim>\<open>boom\<close>, the message does not contain that name.
\<close>

theorem start_message_counterexample:
  \<open>fst (start (demo_env True 500 ''boom'') demo_host) =
     Inl (UnexpectedResponse ''Attempted to start a ManagedServiceHost: <Response [500]> - boom'') \<and>
   get_name (demo_env True 500 ''boom'') (snd (start (demo_env True 500 ''boom'') demo_host)) =
     ''JSHost [127.0.0.1:9009]'' \<and>
   \<not> sublist ''JSHost [127.0.0.1:9009]''
       ''Attempted to start a ManagedServiceHost: <Response [500]> - boom''\<close>
  by code_simp

text \<open>
  C8. A call of \<^verbatim>\<open>start\<close> that returns normally has appended one entry to the
  \<^verbatim>\<open>atexit\<close> registry, and running that entry is the controller's \<^verbatim>\<open>stop\<close> with
  \<^verbatim>\<open>timeout=settings.ON_EXIT_MANAGED_HOSTS_STOP_TIMEOUT\<close>.
\<close>

theorem start_registers_exit_hook:
  assumes "fst (start e h) = Inr ()"
  shows "exitfuncs (snd (start e h)) =
           exitfuncs h @ [Stop_hook (ON_EXIT_MANAGED_HOSTS_STOP_TIMEOUT (settings e))] \<and>
         (\<forall>h'. run_hook e (last (exitfuncs (snd (start e h)))) h' =
                stop e (Some (ON_EXIT_MANAGED_HOSTS_STOP_TIMEOUT (settings e))) h')"
  using assms
  by (auto simp add: start_def Let_def log_def split: sum.splits if_splits option.splits)

theorem start_registers_exit_hook_witness:
  "fst (start (demo_env True 200 ''ok'') demo_host) = Inr () \<and>
   exitfuncs (snd (start (demo_env True 200 ''ok'') demo_host)) = [Stop_hook 10000] \<and>
   (\<forall>h'. run_hook (demo_env True 200 ''ok'')
            (last (exitfuncs (snd (start (demo_env True 200 ''ok'') demo_host)))) h' =
          stop (demo_env True 200 ''ok'') (Some 10000) h')"
proof -
  have ok: "fst (start (demo_env True 200 ''ok'') demo_host) = Inr ()"
    by code_simp
  have t: "ON_EXIT_MANAGED_HOSTS_STOP_TIMEOUT (settings (demo_env True 200 ''ok'')) = 10000"
    by (simp add: demo_env_def)
  have x: "exitfuncs demo_host = []"
    by (simp add: demo_host_def)
  show ?thesis
    using start_registers_exit_hook [OF ok] ok by (simp add: t x)
qed

text \<open>
  C9. When \<^verbatim>\<open>start\<close> returns normally and the field \<^verbatim>\<open>started\<close> of the reply is the
  boolean \<open>b\<close>, a line is printed exactly when \<open>b\<close> is true and
  \<^verbatim>\<open>settings.VERBOSITY >= Verbosity.PROCESS_START\<close>; the line is \<^verbatim>\<open>Started\<close> followed by
  the display name, and it is the only event after the request. Nothing is printed when
  the manager reports \<^verbatim>\<open>started: false\<close>.
\<close>

theorem start_notification_iff:
  assumes "fst (start e h) = Inr ()"
    and "send_request e (trace h) ''start'' (start_params h) True = Inr res"
    and "json res = Some host_json"
    and "subscript host_json ''started'' = Inr (JBool b)"
  shows "((\<exists>m. Print m \<in> set (emitted h (snd (start e h)))) \<longleftrightarrow>
            (b \<and> VERBOSITY (settings e) \<ge> PROCESS_START (Verbosity e))) \<and>
         emitted h (snd (start e h)) =
           Request ''start'' (start_params h) True #
             (if b \<and> VERBOSITY (settings e) \<ge> PROCESS_START (Verbosity e)
              then [Print (''Started '' @ get_name e
                      ((log (Request ''start'' (start_params h) True) h)
                         \<lparr>config := config (snd (start e h))\<rparr>))]
              else [])"
  using assms
  by (auto simp add: start_def Let_def log_def emitted_def
      split: sum.splits if_splits option.splits)

theorem start_notification_iff_witness:
  "fst (start (demo_env True 200 ''ok'') demo_host) = Inr () \<and>
   send_request (demo_env True 200 ''ok'') (trace demo_host) ''start'' (start_params demo_host)
       True =
     Inr \<lparr>status_code = 200, res_text = ''ok'', json = Some demo_body\<rparr> \<and>
   subscript demo_body ''started'' = Inr (JBool True) \<and>
   PROCESS_START (Verbosity (demo_env True 200 ''ok'')) \<le>
     VERBOSITY (settings (demo_env True 200 ''ok'')) \<and>
   (\<exists>m. Print m \<in> set (emitted demo_host (snd (start (demo_env True 200 ''ok'') demo_host))))"
proof -
  have ok: "fst (start (demo_env True 200 ''ok'') demo_host) = Inr ()"
    by code_simp
  have rq: "send_request (demo_env True 200 ''ok'') (trace demo_host) ''start''
       (start_params demo_host) True =
     Inr \<lparr>status_code = 200, res_text = ''ok'', json = Some demo_body\<rparr>"
    by (simp add: demo_env_def)
  have js: "json \<lparr>status_code = 200, res_text = ''ok'', json = Some demo_body\<rparr> = Some demo_body"
    by simp
  have st: "subscript demo_body ''started'' = Inr (JBool True)"
    by (simp add: demo_body_def)
  have v: "PROCESS_START (Verbosity (demo_env True 200 ''ok'')) \<le>
     VERBOSITY (settings (demo_env True 200 ''ok''))"
    by (simp add: demo_env_def)
  show ?thesis
    using start_notification_iff [OF ok rq js st] ok rq st v by simp
qed

text \<open>
  C10. When the manager answers the start request with a status other than 200, the call
  of \<^verbatim>\<open>start\<close> leaves the object and the \<^verbatim>\<open>atexit\<close> registry as they were: the only
  event is the request itself, nothing is registered and nothing is printed.
\<close>

theorem start_non200_no_other_effect:
  assumes "send_request e (trace h) ''start'' (start_params h) True = Inr res"
    and "status_code res \<noteq> 200"
  shows "snd (start e h) = h\<lparr>trace := trace h @ [Request ''start'' (start_params h) True]\<rparr> \<and>
         exitfuncs (snd (start e h)) = exitfuncs h \<and>
         emitted h (snd (start e h)) = [Request ''start'' (start_params h) True] \<and>
         (\<forall>m. Print m \<notin> set (emitted h (snd (start e h))))"
  using assms by (simp add: start_def Let_def log_def emitted_def)

theorem start_non200_no_other_effect_witness:
  "send_request (demo_env True 404 ''gone'') (trace demo_host) ''start'' (start_params demo_host)
       True =
     Inr \<lparr>status_code = 404, res_text = ''gone'', json = Some demo_body\<rparr> \<and>
   (404::int) \<noteq> 200 \<and>
   exitfuncs (snd (start (demo_env True 404 ''gone'') demo_host)) = exitfuncs demo_host \<and>
   emitted demo_host (snd (start (demo_env True 404 ''gone'') demo_host)) =
     [Request ''start'' (start_params demo_host) True] \<and>
   (\<forall>m. Print m \<notin> set (emitted demo_host (snd (start (demo_env True 404 ''gone'') demo_host))))"
proof -
  have rq: "send_request (demo_env True 404 ''gone'') (trace demo_host) ''start''
       (start_params demo_host) True =
     Inr \<lparr>status_code = 404, res_text = ''gone'', json = Some demo_body\<rparr>"
    by (simp add: demo_env_def)
  have ne: "status_code \<lparr>status_code = 404, res_text = ''gone'', json = Some demo_body\<rparr> \<noteq> 200"
    by simp
  show ?thesis
    using start_non200_no_other_effect [OF rq ne] rq by (simp add: emitted_def)
qed

section \<open>stop\<close>

text \<open>
  C3. On a running controller, \<^verbatim>\<open>stop\<close> with a timeout that Python takes as true sends
  a request whose parameters hold that timeout and never sleeps; with no timeout, or the
  timeout 0, the request has only the parameter \<^verbatim>\<open>config\<close>, and a call that returns
  has slept 50 milliseconds right after the request.
\<close>

theorem stop_timeout_request_and_sleep:
  assumes "is_running e h"
  shows "(timeout_truthy timeout \<longrightarrow>
           (\<exists>n rest. timeout = Some n \<and>
              emitted h (snd (stop e timeout h)) =
                Request ''stop'' [(''config'', PStr (config_file h)), (''timeout'', PInt n)] True
                  # rest \<and>
              (\<forall>d. Sleep d \<notin> set rest))) \<and>
         (\<not> timeout_truthy timeout \<longrightarrow>
           (\<exists>rest. emitted h (snd (stop e timeout h)) =
                Request ''stop'' [(''config'', PStr (config_file h))] True # rest \<and>
              (fst (stop e timeout h) = Inr () \<longrightarrow> (\<exists>prints. rest = Sleep 50 # prints))))"
proof (cases timeout)
  case None
  then show ?thesis using assms
    by (simp add: stop_def stop_params_def Let_def log_def emitted_def split: sum.splits)
next
  case (Some n)
  then show ?thesis using assms
    by (simp add: stop_def stop_params_def Let_def log_def emitted_def split: sum.splits)
qed

theorem stop_timeout_request_and_sleep_witness:
  "is_running (demo_env True 200 ''ok'') demo_host \<and>
   timeout_truthy (Some 3) \<and>
   (\<exists>rest. emitted demo_host (snd (stop (demo_env True 200 ''ok'') (Some 3) demo_host)) =
      Request ''stop'' [(''config'', PStr (config_file demo_host)), (''timeout'', PInt 3)] True
        # rest \<and>
      (\<forall>d. Sleep d \<notin> set rest)) \<and>
   \<not> timeout_truthy None \<and>
   fst (stop (demo_env True 200 ''ok'') None demo_host) = Inr () \<and>
   (\<exists>prints. emitted demo_host (snd (stop (demo_env True 200 ''ok'') None demo_host)) =
      Request ''stop'' [(''config'', PStr (config_file demo_host))] True # Sleep 50 # prints)"
proof -
  have run: "is_running (demo_env True 200 ''ok'') demo_host"
    by (simp add: demo_env_def)
  have ok: "fst (stop (demo_env True 200 ''ok'') None demo_host) = Inr ()"
    by code_simp
  show ?thesis
    using stop_timeout_request_and_sleep [OF run, of "Some 3"]
      stop_timeout_request_and_sleep [OF run, of None] run ok
    by auto
qed

text \<open>
  C5. When \<^verbatim>\<open>is_running()\<close> is false, \<^verbatim>\<open>stop\<close> returns at once: no error, no
  request, no other event, and the state is what it was.
\<close>

theorem stop_not_running_noop:
  assumes "\<not> is_running e h"
  shows "stop e timeout h = (Inr (), h) \<and> emitted h (snd (stop e timeout h)) = []"
  using assms by (simp add: stop_def emitted_def)

theorem stop_not_running_noop_witness:
  "\<not> is_running (demo_env False 200 ''ok'') demo_host \<and>
   stop (demo_env False 200 ''ok'') (Some 3) demo_host = (Inr (), demo_host) \<and>
   emitted demo_host (snd (stop (demo_env False 200 ''ok'') (Some 3) demo_host)) = []"
proof -
  have nr: "\<not> is_running (demo_env False 200 ''ok'') demo_host"
    by (simp add: demo_env_def)
  show ?thesis
    using stop_not_running_noop [OF nr, of "Some 3"] nr by (simp add: emitted_def)
qed

text \<open>
  C7. On a running controller, when the manager answers the stop request with a status
  other than 200, \<^verbatim>\<open>stop\<close> raises \<^verbatim>\<open>UnexpectedResponse\<close> with the message
  \<^verbatim>\<open>'Attempted to stop {name}. Response: {res_code}: {res_text}'\<close>, which contains the
  display name, the status code in decimal and the text of the body.
\<close>

theorem stop_non200_message:
  assumes "is_running e h"
    and "send_request e (trace h) ''stop'' (stop_params h timeout) True = Inr res"
    and "status_code res \<noteq> 200"
  shows "\<exists>msg. fst (stop e timeout h) = Inl (UnexpectedResponse msg) \<and>
           msg = ''Attempted to stop '' @ get_name e (snd (stop e timeout h)) @ ''. Response: ''
                   @ str_int (status_code res) @ '': '' @ res_text res \<and>
           sublist (get_name e (snd (stop e timeout h))) msg \<and>
           sublist (str_int (status_code res)) msg \<and>
           sublist (res_text res) msg"
proof -
  let ?h1 = "log (Request ''stop'' (stop_params h timeout) True) h"
  let ?msg = "''Attempted to stop '' @ get_name e ?h1 @ ''. Response: ''
                   @ str_int (status_code res) @ '': '' @ res_text res"
  have m: "stop_message e ?h1 res = ?msg"
    by (simp only: stop_message_def)
  have "stop e timeout h = (Inl (UnexpectedResponse (stop_message e ?h1 res)), ?h1)"
    using assms by (simp add: stop_def Let_def)
  then have r: "stop e timeout h = (Inl (UnexpectedResponse ?msg), ?h1)"
    by (simp only: m)
  have 1: "sublist (get_name e ?h1) ?msg" by (rule sublist_appendI)
  have 2: "sublist (str_int (status_code res)) ?msg" by (rule sublist_third)
  have 3: "sublist (res_text res) ?msg" by (rule sublist_sixth)
  show ?thesis
    unfolding r fst_conv snd_conv
    by (rule exI [of _ ?msg]) (intro conjI refl 1 2 3)
qed

theorem stop_non200_message_witness:
  "is_running (demo_env True 500 ''boom'') demo_host \<and>
   send_request (demo_env True 500 ''boom'') (trace demo_host) ''stop''
       (stop_params demo_host None) True =
     Inr \<lparr>status_code = 500, res_text = ''boom'', json = None\<rparr> \<and>
   fst (stop (demo_env True 500 ''boom'') None demo_host) =
     Inl (UnexpectedResponse ''Attempted to stop JSHost [127.0.0.1:9009]. Response: 500: boom'') \<and>
   sublist ''JSHost [127.0.0.1:9009]''
     ''Attempted to stop JSHost [127.0.0.1:9009]. Response: 500: boom'' \<and>
   sublist ''500'' ''Attempted to stop JSHost [127.0.0.1:9009]. Response: 500: boom'' \<and>
   sublist ''boom'' ''Attempted to stop JSHost [127.0.0.1:9009]. Response: 500: boom''"
proof -
  have run: "is_running (demo_env True 500 ''boom'') demo_host"
    by (simp add: demo_env_def)
  have rq: "send_request (demo_env True 500 ''boom'') (trace demo_host) ''stop''
       (stop_params demo_host None) True =
     Inr \<lparr>status_code = 500, res_text = ''boom'', json = None\<rparr>"
    by (simp add: demo_env_def)
  have ne: "status_code \<lparr>status_code = 500, res_text = ''boom'', json = None\<rparr> \<noteq> 200"
    by simp
  have nm: "\<And>h. get_name (demo_env True 500 ''boom'') h = ''JSHost [127.0.0.1:9009]''"
    by (simp add: demo_env_def)
  show ?thesis
    using stop_non200_message [OF run rq ne] run rq by (simp add: nm str_int_500)
qed

section \<open>restart\<close>

text \<open>
  C4. On a running controller whose \<^verbatim>\<open>stop\<close> and \<^verbatim>\<open>start\<close> both return normally,
  the calls \<^verbatim>\<open>restart\<close> makes are one stop request, then one start request, then
  \<^verbatim>\<open>connect\<close>, and no other. When \<^verbatim>\<open>stop\<close> raises, \<^verbatim>\<open>restart\<close> ends as that call
  of \<^verbatim>\<open>stop\<close> did, with the same error and state, and no start request is sent.
\<close>

theorem restart_order:
  "(is_running e h \<and> fst (stop e None h) = Inr () \<and> fst (start e (snd (stop e None h))) = Inr ()
      \<longrightarrow> filter is_call (emitted h (snd (restart e h))) =
            [Request ''stop'' [(''config'', PStr (config_file h))] True,
             Request ''start'' [(''config'', PStr (config_file h))] True,
             Connect]) \<and>
   (fst (stop e None h) = Inl err
      \<longrightarrow> restart e h = stop e None h \<and> fst (restart e h) = Inl err \<and>
          (\<forall>p b. Request ''start'' p b \<notin> set (emitted h (snd (restart e h)))))"
proof (intro conjI impI)
  assume a: "is_running e h \<and> fst (stop e None h) = Inr () \<and>
             fst (start e (snd (stop e None h))) = Inr ()"
  obtain h1 where s1: "stop e None h = (Inr (), h1)"
    using a by (cases "stop e None h") simp
  obtain h2 where s2: "start e h1 = (Inr (), h2)"
    using a s1 by (cases "start e h1") simp
  from a stop_None_ok [of e h] s1 obtain ps where
    ps: "trace h1 =
           trace h @ Request ''stop'' [(''config'', PStr (config_file h))] True # Sleep 50 # ps"
      "filter is_call ps = []" and cf: "config_file h1 = config_file h"
    by auto
  from start_ok [of e h1] s2 obtain qs where
    qs: "trace h2 = trace h1 @ Request ''start'' [(''config'', PStr (config_file h1))] True # qs"
      "filter is_call qs = []"
    by auto
  have r: "snd (restart e h) = log Connect h2"
    by (simp add: restart_def s1 s2 Let_def split: option.splits)
  show "filter is_call (emitted h (snd (restart e h))) =
            [Request ''stop'' [(''config'', PStr (config_file h))] True,
             Request ''start'' [(''config'', PStr (config_file h))] True,
             Connect]"
    using ps qs cf by (simp add: r emitted_def log_def)
next
  assume b: "fst (stop e None h) = Inl err"
  then show r: "restart e h = stop e None h"
    by (cases "stop e None h") (simp add: restart_def)
  show "fst (restart e h) = Inl err" using r b by simp
  from stop_trace_no_start [of e None h]
  show "\<forall>p b. Request ''start'' p b \<notin> set (emitted h (snd (restart e h)))"
    by (auto simp add: r emitted_def)
qed

theorem restart_order_witness:
  "is_running (demo_env True 200 ''ok'') demo_host \<and>
   fst (stop (demo_env True 200 ''ok'') None demo_host) = Inr () \<and>
   fst (start (demo_env True 200 ''ok'') (snd (stop (demo_env True 200 ''ok'') None demo_host))) =
     Inr () \<and>
   filter is_call (emitted demo_host (snd (restart (demo_env True 200 ''ok'') demo_host))) =
     [Request ''stop'' [(''config'', PStr (config_file demo_host))] True,
      Request ''start'' [(''config'', PStr (config_file demo_host))] True,
      Connect] \<and>
   fst (stop (demo_env True 500 ''boom'') None demo_host) =
     Inl (UnexpectedResponse ''Attempted to stop JSHost [127.0.0.1:9009]. Response: 500: boom'') \<and>
   restart (demo_env True 500 ''boom'') demo_host = stop (demo_env True 500 ''boom'') None demo_host \<and>
   (\<forall>p b. Request ''start'' p b \<notin>
      set (emitted demo_host (snd (restart (demo_env True 500 ''boom'') demo_host))))"
proof -
  have run: "is_running (demo_env True 200 ''ok'') demo_host"
    by (simp add: demo_env_def)
  have ok1: "fst (stop (demo_env True 200 ''ok'') None demo_host) = Inr ()"
    by code_simp
  have ok2: "fst (start (demo_env True 200 ''ok'')
      (snd (stop (demo_env True 200 ''ok'') None demo_host))) = Inr ()"
    by code_simp
  have bad: "fst (stop (demo_env True 500 ''boom'') None demo_host) =
     Inl (UnexpectedResponse ''Attempted to stop JSHost [127.0.0.1:9009]. Response: 500: boom'')"
    by code_simp
  show ?thesis
    using restart_order [of "demo_env True 200 ''ok''" demo_host]
      restart_order [of "demo_env True 500 ''boom''" demo_host
        "UnexpectedResponse ''Attempted to stop JSHost [127.0.0.1:9009]. Response: 500: boom''"]
      run ok1 ok2 bad
    by blast
qed

end
